theory Spec2Isabelle
  imports Complex_Main "HOL-Library.AList" "HOL-Library.Log_Nat"
begin

section \<open>Tables\<close>

text \<open>
  The program works on a pandas \<^verbatim>\<open>DataFrame\<close> read by \<^verbatim>\<open>pd.read_csv\<close> or
  \<^verbatim>\<open>pd.read_excel\<close>. A frame has a row index and an ordered list of columns; every
  column carries its label, its dtype and one cell per row. The dtypes are those the two
  readers infer: \<^verbatim>\<open>int64\<close>, \<^verbatim>\<open>float64\<close>, \<^verbatim>\<open>bool\<close>, \<^verbatim>\<open>object\<close> (text) and
  \<^verbatim>\<open>datetime64[ns]\<close> (date cells of a spreadsheet).
\<close>

datatype dtype = Int64 | Float64 | Bool | Object | Datetime64

datatype cell =
    IntV int
  | FloatV rat
  | StrV string
  | BoolV bool
  | TimestampV int
  | NaN
  | NoneV
  | NaT

text \<open>
  A column label is a \<^verbatim>\<open>str\<close> for every header that \<^verbatim>\<open>read_csv\<close> reads and for a text
  header of a spreadsheet. A header cell of a spreadsheet that holds a number gives a label
  that is no \<^verbatim>\<open>str\<close>; the integer label stands for these.
\<close>

datatype label = StrL string | IntL int

record column =
  name :: label
  dtype :: dtype
  cells :: "cell list"

record dataframe =
  nrows :: nat
  columns :: "column list"

text \<open>
  Pandas keeps one cell per row in every column, and the readers rename a header name
  that occurs twice, so the labels of a table that was read are unique. A property that
  needs unique labels says so.
\<close>

subsection \<open>The pandas operations the program calls\<close>

text \<open>
  \<^verbatim>\<open>np.number\<close> covers the integer and floating dtypes; \<^verbatim>\<open>bool\<close>, \<^verbatim>\<open>object\<close> and
  \<^verbatim>\<open>datetime64\<close> are not numbers for \<^verbatim>\<open>select_dtypes\<close>.
\<close>

fun is_number :: "dtype \<Rightarrow> bool" where
  "is_number Int64 = True"
| "is_number Float64 = True"
| "is_number Bool = False"
| "is_number Object = False"
| "is_number Datetime64 = False"

definition select_dtypes :: "(dtype \<Rightarrow> bool) \<Rightarrow> dataframe \<Rightarrow> dataframe" where
  "select_dtypes incl df = df\<lparr>columns := filter (\<lambda>c. incl (dtype c)) (columns df)\<rparr>"

definition columns_tolist :: "dataframe \<Rightarrow> label list" where
  "columns_tolist df = map name (columns df)"

text \<open>\<^verbatim>\<open>isnull\<close> marks \<^verbatim>\<open>NaN\<close>, \<^verbatim>\<open>None\<close> and \<^verbatim>\<open>NaT\<close>.\<close>

fun isnull :: "cell \<Rightarrow> bool" where
  "isnull NaN = True"
| "isnull NoneV = True"
| "isnull NaT = True"
| "isnull _ = False"

definition isnull_sum :: "dataframe \<Rightarrow> (label \<times> nat) list" where
  "isnull_sum df = map (\<lambda>c. (name c, length (filter isnull (cells c)))) (columns df)"

text \<open>
  A Python \<^verbatim>\<open>dict\<close> is an association list in insertion order; storing under a key that
  is present overwrites its value in place. \<^verbatim>\<open>to_dict\<close> stores the pairs of a Series
  (or the columns of a frame) one after the other.
\<close>

definition to_dict :: "('k \<times> 'v) list \<Rightarrow> ('k \<times> 'v) list" where
  "to_dict kvs = fold (\<lambda>(k, v) d. AList.update k v d) kvs []"

text \<open>\<^verbatim>\<open>df.head(n)\<close> and \<^verbatim>\<open>df[:n]\<close>: the first \<open>n\<close> rows; \<^verbatim>\<open>df.index[:n]\<close> of the default
  range index: the first \<open>n\<close> row numbers.\<close>

definition head :: "nat \<Rightarrow> dataframe \<Rightarrow> dataframe" where
  "head n df =
     \<lparr> nrows = min n (nrows df),
       columns = map (\<lambda>c. c\<lparr>cells := take n (cells c)\<rparr>) (columns df) \<rparr>"

definition index_upto :: "nat \<Rightarrow> dataframe \<Rightarrow> nat list" where
  "index_upto n df = [0..<min n (nrows df)]"

text \<open>
  \<^verbatim>\<open>df.values\<close> is one array of one dtype: the dtype of the columns when they agree,
  \<^verbatim>\<open>float64\<close> for a mix of integer and floating columns (integers become floats), and
  \<^verbatim>\<open>object\<close> otherwise, where every cell stays what it is. \<^verbatim>\<open>tolist\<close> gives the rows;
  of an array of timestamps it gives the nanoseconds as integers, and \<^verbatim>\<open>None\<close> for
  \<^verbatim>\<open>NaT\<close>.
\<close>

definition values_dtype :: "dataframe \<Rightarrow> dtype" where
  "values_dtype df =
     (case map dtype (columns df) of
        [] \<Rightarrow> Float64
      | t # ts \<Rightarrow>
          if list_all (\<lambda>u. u = t) ts then t
          else if list_all is_number (t # ts) then Float64
          else Object)"

fun astype :: "dtype \<Rightarrow> cell \<Rightarrow> cell" where
  "astype Float64 (IntV i) = FloatV (of_int i)"
| "astype Datetime64 (TimestampV t) = IntV t"
| "astype Datetime64 NaT = NoneV"
| "astype t c = c"

definition values_tolist :: "dataframe \<Rightarrow> cell list list" where
  "values_tolist df =
     map (\<lambda>i. map (\<lambda>c. astype (values_dtype df) (cells c ! i)) (columns df))
       [0..<nrows df]"

subsection \<open>Text\<close>

text \<open>
  A string is a list of characters, one per code point, so that \<^verbatim>\<open>len\<close> is
  \<^const>\<open>length\<close> and \<^verbatim>\<open>s[:20]\<close> is \<^term>\<open>take 20 s\<close>. \<^verbatim>\<open>str\<close> of an integer is its
  decimal form.
\<close>

definition digit :: "nat \<Rightarrow> char" where
  "digit d = ''0123456789'' ! d"

function str_nat :: "nat \<Rightarrow> string" where
  "str_nat n = (if n < 10 then [digit n] else str_nat (n div 10) @ [digit (n mod 10)])"
  by pat_completeness auto
termination
  by (relation "measure (\<lambda>n. n)") auto

declare str_nat.simps [simp del]

definition str_int :: "int \<Rightarrow> string" where
  "str_int i = (if i < 0 then CHR ''-'' # str_nat (nat (- i)) else str_nat (nat i))"

fun join :: "string \<Rightarrow> string list \<Rightarrow> string" where
  "join sep [] = []"
| "join sep [x] = x"
| "join sep (x # y # ys) = x @ sep @ join sep (y # ys)"

text \<open>\<^verbatim>\<open>str\<close> of a label, as an f-string and \<^verbatim>\<open>str(cell)\<close> take it.\<close>

fun label_str :: "label \<Rightarrow> string" where
  "label_str (StrL s) = s"
| "label_str (IntL i) = str_int i"

fun is_str :: "label \<Rightarrow> bool" where
  "is_str (StrL s) = True"
| "is_str (IntL i) = False"

text \<open>
  What the program asks of its libraries and what needs the decimal form of a float is
  kept as a parameter: \<^verbatim>\<open>df.describe()\<close> (one labelled list of statistics per described
  column), \<^verbatim>\<open>str\<close> on a float and on a timestamp, the format \<^verbatim>\<open>:.2f\<close>, and the
  formatted time of the call, \<^verbatim>\<open>datetime.now().strftime(...)\<close>.
\<close>

record lib =
  describe :: "dataframe \<Rightarrow> (label \<times> (string \<times> cell) list) list"
  str_float :: "rat \<Rightarrow> string"
  str_timestamp :: "int \<Rightarrow> string"
  fmt_2f :: "rat \<Rightarrow> string"
  now_str :: string

fun py_str :: "lib \<Rightarrow> cell \<Rightarrow> string" where
  "py_str L (IntV i) = str_int i"
| "py_str L (FloatV r) = str_float L r"
| "py_str L (StrV s) = s"
| "py_str L (BoolV b) = (if b then ''True'' else ''False'')"
| "py_str L (TimestampV t) = str_timestamp L t"
| "py_str L NaN = ''nan''"
| "py_str L NoneV = ''None''"
| "py_str L NaT = ''NaT''"

subsection \<open>Errors\<close>

datatype error = ValueError | TypeError | NameError | ZeroDivisionError

text \<open>
  A sequence of steps, or a list comprehension, whose parts may raise: the first error
  wins.
\<close>

fun collect :: "(error + 'a) list \<Rightarrow> error + 'a list" where
  "collect [] = Inr []"
| "collect (x # xs) =
     (case x of
        Inl e \<Rightarrow> Inl e
      | Inr v \<Rightarrow> (case collect xs of Inl e \<Rightarrow> Inl e | Inr vs \<Rightarrow> Inr (v # vs)))"

text \<open>\<^verbatim>\<open>sep.join(items)\<close> raises \<^verbatim>\<open>TypeError\<close> on an item that is no \<^verbatim>\<open>str\<close>.\<close>

definition py_join :: "string \<Rightarrow> label list \<Rightarrow> error + string" where
  "py_join sep items =
     (if list_all is_str items then Inr (join sep (map label_str items)) else Inl TypeError)"

subsection \<open>Floats\<close>

text \<open>
  A Python float is an IEEE double: a rational with 53 significant bits. An operation
  gives the exact result rounded to the nearest double, to the even one of two that are
  equally near. (Overflow and subnormal numbers are out of reach of the lengths computed
  here.)
\<close>

definition pow2 :: "int \<Rightarrow> rat" where
  "pow2 e = (if e \<ge> 0 then 2 ^ nat e else 1 / 2 ^ nat (- e))"

text \<open>The exponent of the leading bit of a positive rational.\<close>

definition ilog2 :: "rat \<Rightarrow> int" where
  "ilog2 a =
     (let (p, q) = quotient_of a; e = bitlen p - bitlen q
      in if a < pow2 e then e - 1 else e)"

definition round_even :: "rat \<Rightarrow> int" where
  "round_even m =
     (let f = \<lfloor>m\<rfloor>; d = m - of_int f
      in if d < 1 / 2 then f else if d > 1 / 2 then f + 1 else if even f then f else f + 1)"

definition to_double :: "rat \<Rightarrow> rat" where
  "to_double x =
     (if x = 0 then 0
      else (let a = \<bar>x\<bar>; u = pow2 (ilog2 a - 52)
            in sgn x * of_int (round_even (a / u)) * u))"

definition fdiv :: "rat \<Rightarrow> rat \<Rightarrow> rat" where
  "fdiv a b = to_double (a / b)"

definition fsub :: "rat \<Rightarrow> rat \<Rightarrow> rat" where
  "fsub a b = to_double (a - b)"

text \<open>True division of a float by an \<^verbatim>\<open>int\<close> raises on a zero divisor.\<close>

definition py_div :: "rat \<Rightarrow> nat \<Rightarrow> error + rat" where
  "py_div a b = (if b = 0 then Inl ZeroDivisionError else Inr (fdiv a (of_nat b)))"

section \<open>The profiler: \<^verbatim>\<open>analyze_data\<close>\<close>

record analysis =
  total_rows :: nat
  total_columns :: nat
  numeric_columns :: "label list"
  categorical_columns :: "label list"
  missing_values :: "(label \<times> nat) list"
  summary_stats :: "(label \<times> (string \<times> cell) list) list"

definition analyze_data :: "lib \<Rightarrow> dataframe \<Rightarrow> analysis" where
  "analyze_data L df =
     \<lparr> total_rows = nrows df,
       total_columns = length (columns df),
       numeric_columns = columns_tolist (select_dtypes is_number df),
       categorical_columns = columns_tolist (select_dtypes (\<lambda>t. t = Object) df),
       missing_values = to_dict (isnull_sum df),
       summary_stats =
         (if length (columns (select_dtypes is_number df)) > 0
          then to_dict (describe L df) else []) \<rparr>"

section \<open>The chart renderer: \<^verbatim>\<open>create_visualizations\<close>\<close>

datatype chart_kind = Bar | Line

record figure =
  fig_kind :: chart_kind
  fig_title :: string
  fig_x :: "nat list"
  fig_y :: "cell list"
  fig_colour :: string

text \<open>A rendered chart: the PNG bytes of a figure at a given size.\<close>

record image =
  img_figure :: figure
  img_width :: nat
  img_height :: nat

text \<open>
  \<^verbatim>\<open>px.bar\<close> and \<^verbatim>\<open>px.line\<close> collect their arguments in the order \<^verbatim>\<open>x\<close>, \<^verbatim>\<open>y\<close>. The
  program passes \<^verbatim>\<open>x\<close> as an unnamed array of row numbers and \<^verbatim>\<open>y\<close> as a column
  label. Plotly stores the array under the name \<^verbatim>\<open>x\<close> and raises \<^verbatim>\<open>NameError\<close> when
  that name is taken by the label given for \<^verbatim>\<open>y\<close>. It raises \<^verbatim>\<open>ValueError\<close> when the
  label is not a column of the frame, and when the column has not the length of the
  arguments collected before it (``All arguments should have the same length''); an
  empty \<^verbatim>\<open>x\<close> fixes no length.
\<close>

definition px_figure ::
  "chart_kind \<Rightarrow> dataframe \<Rightarrow> nat list \<Rightarrow> label \<Rightarrow> string \<Rightarrow> string \<Rightarrow> error + figure" where
  "px_figure k df x y t colour =
     (if y = StrL ''x'' then Inl NameError
      else
        (case find (\<lambda>c. name c = y) (columns df) of
           None \<Rightarrow> Inl ValueError
         | Some c \<Rightarrow>
             if length x \<noteq> 0 \<and> nrows df \<noteq> length x then Inl ValueError
             else Inr \<lparr> fig_kind = k, fig_title = t, fig_x = x, fig_y = cells c,
                        fig_colour = colour \<rparr>))"

definition to_image :: "figure \<Rightarrow> nat \<Rightarrow> nat \<Rightarrow> image" where
  "to_image fig w h = \<lparr> img_figure = fig, img_width = w, img_height = h \<rparr>"

definition create_visualizations :: "dataframe \<Rightarrow> label list \<Rightarrow> error + image list" where
  "create_visualizations df numeric_cols =
     (if length numeric_cols > 0 then
        (case px_figure Bar df (index_upto 10 df) (numeric_cols ! 0)
                (label_str (numeric_cols ! 0) @ '' - Top 10 Records'') ''#667eea'' of
           Inl e \<Rightarrow> Inl e
         | Inr fig1 \<Rightarrow>
             if length numeric_cols \<ge> 2 then
               (case px_figure Line (head 20 df) (index_upto 20 df) (numeric_cols ! 1)
                       (label_str (numeric_cols ! 1) @ '' - Trend Analysis'') ''#764ba2'' of
                  Inl e \<Rightarrow> Inl e
                | Inr fig2 \<Rightarrow> Inr [to_image fig1 800 400, to_image fig2 800 400])
             else Inr [to_image fig1 800 400])
      else Inr [])"

section \<open>The report composer: \<^verbatim>\<open>generate_pdf_report\<close>\<close>

text \<open>
  The report is the list of flowables handed to \<^verbatim>\<open>doc.build\<close>, with the page set-up of
  the document template. Lengths are floats, in points; \<^verbatim>\<open>inch\<close> is 72 points and
  \<^verbatim>\<open>letter\<close> is 612 by 792 points. The constant table styles are left out, and so is
  the layout of the flowables on pages, which belongs to reportlab.
\<close>

datatype style = CustomTitle | CustomHeading | Normal | Heading3

datatype flowable =
    Paragraph string style
  | Spacer nat nat
  | Table "string list list" "rat list"
  | PageBreak
  | Image image rat rat

record document =
  pagesize :: "rat \<times> rat"
  rightMargin :: rat
  leftMargin :: rat
  topMargin :: rat
  bottomMargin :: rat
  story :: "flowable list"

definition inch :: rat where
  "inch = 72"

definition letter :: "rat \<times> rat" where
  "letter = (612, 792)"

text \<open>
  The constructor \<^verbatim>\<open>Paragraph\<close> reads its text as markup. A \<^verbatim>\<open><\<close> opens a tag that
  runs to the next \<^verbatim>\<open>>\<close>; a tag that starts with \<^verbatim>\<open>/\<close> must close the tag opened
  last, and at the end no tag may be open or unfinished. A text that breaks this is
  refused with \<^verbatim>\<open>ValueError\<close>. This is as much of the parser as the texts of the
  program need, which are its own \<^verbatim>\<open><b>\<close> tags around the labels it pastes in; the
  parser of reportlab knows more (the names of its tags, attributes, entities).
\<close>

datatype scan = Text "string list" | Tag "string list" string | Broken

fun end_tag :: "string \<Rightarrow> string list \<Rightarrow> scan" where
  "end_tag (c # n) opened =
     (if c = CHR ''/'' then
        (case opened of [] \<Rightarrow> Broken | m # rest \<Rightarrow> if n = m then Text rest else Broken)
      else Text ((c # n) # opened))"
| "end_tag [] opened = Broken"

fun scan_char :: "char \<Rightarrow> scan \<Rightarrow> scan" where
  "scan_char c (Text opened) = (if c = CHR ''<'' then Tag opened [] else Text opened)"
| "scan_char c (Tag opened t) =
     (if c = CHR ''>'' then end_tag (rev t) opened else Tag opened (c # t))"
| "scan_char c Broken = Broken"

definition markup_ok :: "string \<Rightarrow> bool" where
  "markup_ok text = (fold scan_char text (Text []) = Text [])"

definition rl_Paragraph :: "string \<Rightarrow> style \<Rightarrow> error + flowable" where
  "rl_Paragraph text st = (if markup_ok text then Inr (Paragraph text st) else Inl ValueError)"

text \<open>
  A text without the characters of markup, and a label that is a \<^verbatim>\<open>str\<close> and such a
  text.
\<close>

definition plain :: "string \<Rightarrow> bool" where
  "plain s \<longleftrightarrow> CHR ''<'' \<notin> set s \<and> CHR ''>'' \<notin> set s \<and> CHR ''&'' \<notin> set s"

fun plain_label :: "label \<Rightarrow> bool" where
  "plain_label (StrL s) = plain s"
| "plain_label (IntL i) = False"

text \<open>
  The constructor \<^verbatim>\<open>Table\<close> of reportlab refuses data without a row or without a
  column (\<^verbatim>\<open>ValueError\<close>: ``must have at least a row and column'').
\<close>

definition rl_Table :: "string list list \<Rightarrow> rat list \<Rightarrow> error + flowable" where
  "rl_Table data colWidths =
     (if length data = 0 \<or> fold max (map length data) 0 = 0 then Inl ValueError
      else Inr (Table data colWidths))"

definition truncate_cell :: "string \<Rightarrow> string" where
  "truncate_cell s = (if length s > 20 then take 20 s @ ''...'' else s)"

text \<open>
  The preview data: the labels, then the first rows, and \<^verbatim>\<open>str\<close> and the truncation on
  every cell of both.
\<close>

definition preview_data :: "lib \<Rightarrow> dataframe \<Rightarrow> string list list" where
  "preview_data L df =
     map (map truncate_cell)
       (map label_str (columns_tolist df) # map (map (py_str L)) (values_tolist (head 10 df)))"

definition col_widths :: "dataframe \<Rightarrow> error + rat list" where
  "col_widths df =
     collect (map (\<lambda>_. case py_div (fst letter) (length (columns df)) of
                           Inl e \<Rightarrow> Inl e
                         | Inr q \<Rightarrow> Inr (fsub q 20))
                (columns df))"

text \<open>A statistic that is a float (\<^verbatim>\<open>nan\<close> is one) is formatted with \<^verbatim>\<open>:.2f\<close>.\<close>

fun stat_str :: "lib \<Rightarrow> cell \<Rightarrow> string" where
  "stat_str L (FloatV r) = fmt_2f L r"
| "stat_str L NaN = ''nan''"
| "stat_str L v = py_str L v"

text \<open>The list of names of the column information, or \<^verbatim>\<open>None\<close> for an empty list.\<close>

definition names_text :: "label list \<Rightarrow> error + string" where
  "names_text ns = (if ns \<noteq> [] then py_join '', '' ns else Inr ''None'')"

text \<open>The document template: letter pages with the margins the program sets.\<close>

definition doc_template :: document where
  "doc_template =
     \<lparr> pagesize = letter, rightMargin = 72, leftMargin = 72, topMargin = 72,
       bottomMargin = 18, story = [] \<rparr>"

text \<open>The flowables of each block of the function, in the order they are made.\<close>

definition title_block :: "lib \<Rightarrow> error + flowable list" where
  "title_block L =
     collect
       [rl_Paragraph ''Automated Data Analysis Report'' CustomTitle,
        rl_Paragraph (''Generated on: '' @ now_str L) Normal,
        Inr (Spacer 1 20)]"

definition summary_block :: "analysis \<Rightarrow> error + flowable list" where
  "summary_block a =
     collect
       [rl_Paragraph ''Executive Summary'' CustomHeading,
        rl_Table
          [[''Total Records'', str_nat (total_rows a)],
           [''Total Columns'', str_nat (total_columns a)],
           [''Numeric Columns'', str_nat (length (numeric_columns a))],
           [''Categorical Columns'', str_nat (length (categorical_columns a))]]
          [3 * inch, 3 * inch],
        Inr (Spacer 1 20)]"

definition column_info_block :: "analysis \<Rightarrow> error + flowable list" where
  "column_info_block a =
     collect
       [rl_Paragraph ''Column Information'' CustomHeading,
        (case names_text (numeric_columns a) of
           Inl e \<Rightarrow> Inl e
         | Inr t \<Rightarrow> rl_Paragraph (''<b>Numeric Columns:</b> '' @ t) Normal),
        Inr (Spacer 1 10),
        (case names_text (categorical_columns a) of
           Inl e \<Rightarrow> Inl e
         | Inr t \<Rightarrow> rl_Paragraph (''<b>Categorical Columns:</b> '' @ t) Normal),
        Inr (Spacer 1 20)]"

fun stats_tables :: "lib \<Rightarrow> (label \<times> (string \<times> cell) list) list \<Rightarrow> error + flowable list" where
  "stats_tables L [] = Inr []"
| "stats_tables L ((col, stats) # rest) =
     (case collect
             [rl_Paragraph (''<b>'' @ label_str col @ ''</b>'') Heading3,
              rl_Table (map (\<lambda>(k, v). [k, stat_str L v]) stats) [2 * inch, 2 * inch],
              Inr (Spacer 1 12)] of
        Inl e \<Rightarrow> Inl e
      | Inr fs \<Rightarrow>
          (case stats_tables L rest of
             Inl e \<Rightarrow> Inl e
           | Inr gs \<Rightarrow> Inr (fs @ gs)))"

definition stats_section :: "lib \<Rightarrow> analysis \<Rightarrow> error + flowable list" where
  "stats_section L a =
     (if summary_stats a \<noteq> [] then
        (case rl_Paragraph ''Statistical Summary'' CustomHeading of
           Inl e \<Rightarrow> Inl e
         | Inr heading \<Rightarrow>
             (case stats_tables L (take 3 (summary_stats a)) of
                Inl e \<Rightarrow> Inl e
              | Inr fs \<Rightarrow> Inr (heading # fs)))
      else Inr [])"

definition preview_block :: "lib \<Rightarrow> dataframe \<Rightarrow> error + flowable list" where
  "preview_block L df =
     (case rl_Paragraph ''Data Preview (First 10 Rows)'' CustomHeading of
        Inl e \<Rightarrow> Inl e
      | Inr heading \<Rightarrow>
          (case col_widths df of
             Inl e \<Rightarrow> Inl e
           | Inr ws \<Rightarrow>
               (case rl_Table (preview_data L df) ws of
                  Inl e \<Rightarrow> Inl e
                | Inr preview_table \<Rightarrow> Inr [PageBreak, heading, preview_table])))"

definition charts_section :: "image list \<Rightarrow> error + flowable list" where
  "charts_section charts =
     (if charts \<noteq> [] then
        (case rl_Paragraph ''Data Visualizations'' CustomHeading of
           Inl e \<Rightarrow> Inl e
         | Inr heading \<Rightarrow>
             Inr ([PageBreak, heading]
                  @ concat (map (\<lambda>chart_bytes.
                                   [Image chart_bytes (6 * inch) (3 * inch), Spacer 1 20])
                              charts)))
      else Inr [])"

definition generate_pdf_report ::
  "lib \<Rightarrow> dataframe \<Rightarrow> analysis \<Rightarrow> image list \<Rightarrow> error + document" where
  "generate_pdf_report L df a charts =
     (case collect
             [title_block L, summary_block a, column_info_block a, stats_section L a,
              preview_block L df, charts_section charts] of
        Inl e \<Rightarrow> Inl e
      | Inr blocks \<Rightarrow> Inr (doc_template\<lparr>story := concat blocks\<rparr>))"

text \<open>The width left between the side margins of a page.\<close>

definition printable_width :: "document \<Rightarrow> rat" where
  "printable_width d = fst (pagesize d) - leftMargin d - rightMargin d"

section \<open>The pipeline of the upload handler\<close>

text \<open>
  After the file is read, the handler profiles the table and, on the button, renders the
  charts of the numeric columns and composes the report; an error of any stage ends the
  run.
\<close>

definition report_pipeline :: "lib \<Rightarrow> dataframe \<Rightarrow> error + document" where
  "report_pipeline L df =
     (let analysis = analyze_data L df in
      case create_visualizations df (numeric_columns analysis) of
        Inl e \<Rightarrow> Inl e
      | Inr charts \<Rightarrow> generate_pdf_report L df analysis charts)"

section \<open>The stages on a store of objects\<close>

text \<open>
  The arguments of the three functions are references to objects that the caller holds as
  well. A store is the list of the objects that exist, an address is a position in it,
  and a new object takes the next address. The lists the functions fill
  (\<^verbatim>\<open>charts\<close>, \<^verbatim>\<open>elements\<close>) and the buffer are objects of their own; the calls into
  pandas and plotly read a frame and return new values.
\<close>

datatype obj =
    Frame dataframe
  | Dict analysis
  | ImageList "image list"
  | FlowableList "flowable list"
  | BytesIO "document option"

type_synonym store = "obj list"

definition lookup :: "store \<Rightarrow> nat \<Rightarrow> obj option" where
  "lookup h r = (if r < length h then Some (h ! r) else None)"

definition new :: "obj \<Rightarrow> store \<Rightarrow> nat \<times> store" where
  "new v h = (length h, h @ [v])"

text \<open>\<^verbatim>\<open>charts.append(x)\<close> and \<^verbatim>\<open>elements.append(x)\<close> change the list object in place.\<close>

definition append_image :: "nat \<Rightarrow> image \<Rightarrow> store \<Rightarrow> store" where
  "append_image r x h =
     (case lookup h r of Some (ImageList xs) \<Rightarrow> h[r := ImageList (xs @ [x])] | _ \<Rightarrow> h)"

definition append_flowable :: "nat \<Rightarrow> flowable \<Rightarrow> store \<Rightarrow> store" where
  "append_flowable r x h =
     (case lookup h r of Some (FlowableList xs) \<Rightarrow> h[r := FlowableList (xs @ [x])] | _ \<Rightarrow> h)"

definition append_flowables :: "nat \<Rightarrow> flowable list \<Rightarrow> store \<Rightarrow> store" where
  "append_flowables r xs h = fold (append_flowable r) xs h"

text \<open>
  \<^verbatim>\<open>doc.build(elements)\<close> writes the document into the buffer of the template and takes
  the flowables off the list it is given.
\<close>

definition build :: "nat \<Rightarrow> nat \<Rightarrow> store \<Rightarrow> store" where
  "build buffer elements h =
     (case lookup h elements of
        Some (FlowableList fs) \<Rightarrow>
          h[buffer := BytesIO (Some (doc_template\<lparr>story := fs\<rparr>)),
            elements := FlowableList []]
      | _ \<Rightarrow> h)"

text \<open>
  The three functions with their arguments passed by reference. The result is \<open>None\<close>
  when a reference does not hold an object of the kind the function is called with.
\<close>

definition analyze_data_st :: "lib \<Rightarrow> nat \<Rightarrow> store \<Rightarrow> (nat \<times> store) option" where
  "analyze_data_st L df_ref h =
     (case lookup h df_ref of
        Some (Frame df) \<Rightarrow> Some (new (Dict (analyze_data L df)) h)
      | _ \<Rightarrow> None)"

definition create_visualizations_st ::
  "nat \<Rightarrow> label list \<Rightarrow> store \<Rightarrow> ((error + nat) \<times> store) option" where
  "create_visualizations_st df_ref numeric_cols h =
     (case lookup h df_ref of
        Some (Frame df) \<Rightarrow>
          (let (charts, h1) = new (ImageList []) h in
           Some
             (if length numeric_cols > 0 then
                (case px_figure Bar df (index_upto 10 df) (numeric_cols ! 0)
                        (label_str (numeric_cols ! 0) @ '' - Top 10 Records'') ''#667eea'' of
                   Inl e \<Rightarrow> (Inl e, h1)
                 | Inr fig1 \<Rightarrow>
                     (let h2 = append_image charts (to_image fig1 800 400) h1 in
                      if length numeric_cols \<ge> 2 then
                        (case px_figure Line (head 20 df) (index_upto 20 df)
                                (numeric_cols ! 1)
                                (label_str (numeric_cols ! 1) @ '' - Trend Analysis'') ''#764ba2'' of
                           Inl e \<Rightarrow> (Inl e, h2)
                         | Inr fig2 \<Rightarrow>
                             (Inr charts, append_image charts (to_image fig2 800 400) h2))
                      else (Inr charts, h2)))
              else (Inr charts, h1)))
      | _ \<Rightarrow> None)"

definition generate_pdf_report_st ::
  "lib \<Rightarrow> nat \<Rightarrow> nat \<Rightarrow> nat \<Rightarrow> store \<Rightarrow> ((error + nat) \<times> store) option" where
  "generate_pdf_report_st L df_ref analysis_ref charts_ref h =
     (case (lookup h df_ref, lookup h analysis_ref, lookup h charts_ref) of
        (Some (Frame df), Some (Dict a), Some (ImageList charts)) \<Rightarrow>
          (let (buffer, h1) = new (BytesIO None) h;
               (elements, h2) = new (FlowableList []) h1 in
           Some
             (case title_block L of
                Inl e \<Rightarrow> (Inl e, h2)
              | Inr title \<Rightarrow>
             (let h3 = append_flowables elements title h2 in
              case summary_block a of
                Inl e \<Rightarrow> (Inl e, h3)
              | Inr summary \<Rightarrow>
             (let h4 = append_flowables elements summary h3 in
              case column_info_block a of
                Inl e \<Rightarrow> (Inl e, h4)
              | Inr info \<Rightarrow>
             (let h5 = append_flowables elements info h4 in
              case stats_section L a of
                Inl e \<Rightarrow> (Inl e, h5)
              | Inr stats \<Rightarrow>
             (let h6 = append_flowables elements stats h5 in
              case preview_block L df of
                Inl e \<Rightarrow> (Inl e, h6)
              | Inr preview \<Rightarrow>
             (let h7 = append_flowables elements preview h6 in
              case charts_section charts of
                Inl e \<Rightarrow> (Inl e, h7)
              | Inr images \<Rightarrow>
             (let h8 = append_flowables elements images h7
              in (Inr buffer, build buffer elements h8)))))))))
      | _ \<Rightarrow> None)"

section \<open>Example tables\<close>

text \<open>
  A stand-in for the library parameter, used where a property is evaluated on a concrete
  table: \<^verbatim>\<open>describe\<close> reports the count of present cells of every numeric column (of
  every column when none is numeric), and the float formats are those of whole numbers.
\<close>

definition sample_describe :: "dataframe \<Rightarrow> (label \<times> (string \<times> cell) list) list" where
  "sample_describe df =
     (let num = filter (\<lambda>c. is_number (dtype c)) (columns df)
      in map (\<lambda>c. (name c,
                    [(''count'', FloatV (of_nat (length (filter (\<lambda>v. \<not> isnull v) (cells c)))))]))
           (if num = [] then columns df else num))"

definition sample_lib :: lib where
  "sample_lib =
     \<lparr> describe = sample_describe,
       str_float = (\<lambda>r. str_int \<lfloor>r\<rfloor> @ ''.0''),
       str_timestamp = (\<lambda>t. str_int t),
       fmt_2f = (\<lambda>r. str_int \<lfloor>r\<rfloor> @ ''.00''),
       now_str = ''January 01, 2024 at 09:00 AM'' \<rparr>"

text \<open>Three rows of sales: text, integers, floats with a gap, and a column with no value.\<close>

definition sales_df :: dataframe where
  "sales_df =
     \<lparr> nrows = 3,
       columns =
         [\<lparr> name = StrL ''Product'', dtype = Object,
             cells = [StrV ''Laptop'', StrV ''Phone'', StrV ''Tablet''] \<rparr>,
          \<lparr> name = StrL ''Sales'', dtype = Int64, cells = [IntV 10, IntV 25, IntV 7] \<rparr>,
          \<lparr> name = StrL ''Revenue'', dtype = Float64, cells = [FloatV 1000, NaN, FloatV 250] \<rparr>,
          \<lparr> name = StrL ''Notes'', dtype = Float64, cells = [NaN, NaN, NaN] \<rparr>] \<rparr>"

text \<open>A column of \<^verbatim>\<open>True\<close>/\<^verbatim>\<open>False\<close>, which \<^verbatim>\<open>read_csv\<close> reads as \<^verbatim>\<open>bool\<close>.\<close>

definition flags_df :: dataframe where
  "flags_df =
     \<lparr> nrows = 2,
       columns = [\<lparr> name = StrL ''Active'', dtype = Bool, cells = [BoolV True, BoolV False] \<rparr>] \<rparr>"

text \<open>Text columns only; one cell is longer than 20 characters.\<close>

definition text_df :: dataframe where
  "text_df =
     \<lparr> nrows = 2,
       columns =
         [\<lparr> name = StrL ''Product'', dtype = Object, cells = [StrV ''Laptop'', StrV ''Phone''] \<rparr>,
          \<lparr> name = StrL ''Comment'', dtype = Object,
             cells = [StrV ''ok'', StrV ''abcdefghijklmnopqrstuvwxyz''] \<rparr>] \<rparr>"

text \<open>A column whose name holds a \<^verbatim>\<open><\<close>.\<close>

definition markup_df :: dataframe where
  "markup_df =
     \<lparr> nrows = 1,
       columns = [\<lparr> name = StrL ''a<b'', dtype = Object, cells = [StrV ''v''] \<rparr>] \<rparr>"

text \<open>A spreadsheet whose header cell holds the number 2024.\<close>

definition numbered_df :: dataframe where
  "numbered_df =
     \<lparr> nrows = 1,
       columns = [\<lparr> name = IntL 2024, dtype = Object, cells = [StrV ''v''] \<rparr>] \<rparr>"

text \<open>A file with a header line and no data line.\<close>

definition header_only_df :: dataframe where
  "header_only_df =
     \<lparr> nrows = 0, columns = [\<lparr> name = StrL ''Product'', dtype = Object, cells = [] \<rparr>] \<rparr>"

text \<open>An empty sheet: no row and no column.\<close>

definition empty_df :: dataframe where
  "empty_df = \<lparr> nrows = 0, columns = [] \<rparr>"

text \<open>Eleven rows of one integer column.\<close>

definition eleven_df :: dataframe where
  "eleven_df =
     \<lparr> nrows = 11,
       columns = [\<lparr> name = StrL ''Sales'', dtype = Int64, cells = map IntV [1, 2, 3, 4, 5, 6, 7, 8, 9, 10, 11] \<rparr>] \<rparr>"

text \<open>The objects of a session after the upload: the table, its profile and no chart.\<close>

definition session_store :: store where
  "session_store =
     [Frame sales_df, Dict (analyze_data sample_lib sales_df), ImageList []]"


section \<open>Properties of the profiler\<close>

subsection \<open>Dictionaries with distinct keys\<close>

lemma update_fresh: "k \<notin> fst ` set d \<Longrightarrow> AList.update k v d = d @ [(k, v)]"
  by (induction d) auto

lemma fold_update_distinct:
  "distinct (map fst kvs) \<Longrightarrow> fst ` set kvs \<inter> fst ` set d = {} \<Longrightarrow>
   fold (\<lambda>(k, v) d. AList.update k v d) kvs d = d @ kvs"
proof (induction kvs arbitrary: d)
  case Nil
  then show ?case by simp
next
  case (Cons kv kvs)
  obtain k v where kv: "kv = (k, v)" by (cases kv)
  from Cons.prems have fresh: "k \<notin> fst ` set d" by (auto simp: kv)
  have "fst ` set kvs \<inter> fst ` set (d @ [(k, v)]) = {}"
    using Cons.prems by (auto simp: kv)
  moreover have "distinct (map fst kvs)" using Cons.prems by simp
  ultimately show ?case
    using Cons.IH [of "d @ [(k, v)]"] by (simp add: kv update_fresh [OF fresh])
qed

lemma to_dict_distinct: "distinct (map fst kvs) \<Longrightarrow> to_dict kvs = kvs"
  using fold_update_distinct [of kvs "[]"] by (simp add: to_dict_def)

lemma keys_isnull_sum: "map fst (isnull_sum df) = map name (columns df)"
  by (simp add: isnull_sum_def comp_def)

subsection \<open>The two column lists\<close>

lemma numeric_columns_eq:
  "numeric_columns (analyze_data L df) = map name (filter (\<lambda>c. is_number (dtype c)) (columns df))"
  by (simp add: analyze_data_def columns_tolist_def select_dtypes_def)

lemma categorical_columns_eq:
  "categorical_columns (analyze_data L df) = map name (filter (\<lambda>c. dtype c = Object) (columns df))"
  by (simp add: analyze_data_def columns_tolist_def select_dtypes_def)

text \<open>
  Claim C1, as stated, fails: a \<^verbatim>\<open>bool\<close> column is in neither list, so the two lists
  do not cover the column labels of \<^const>\<open>flags_df\<close>.
\<close>

theorem columns_union_counterexample:
  "set (numeric_columns (analyze_data sample_lib flags_df))
     \<union> set (categorical_columns (analyze_data sample_lib flags_df))
   \<noteq> set (columns_tolist flags_df)"
  by (simp add: numeric_columns_eq categorical_columns_eq flags_df_def columns_tolist_def)

text \<open>
  Claim C1, amended. When the column labels are unique, the numeric labels and the
  categorical labels are disjoint, and together they are the labels of the columns whose
  dtype is a number or \<^verbatim>\<open>object\<close>; a column of another dtype is in neither list.
\<close>

theorem columns_split:
  assumes "distinct (map name (columns df))"
  shows "set (numeric_columns (analyze_data L df))
           \<inter> set (categorical_columns (analyze_data L df)) = {}
         \<and> set (numeric_columns (analyze_data L df))
           \<union> set (categorical_columns (analyze_data L df))
           = set (map name (filter (\<lambda>c. is_number (dtype c) \<or> dtype c = Object) (columns df)))"
proof
  have inj: "inj_on name (set (columns df))"
    using assms by (simp add: distinct_map)
  show "set (numeric_columns (analyze_data L df))
           \<inter> set (categorical_columns (analyze_data L df)) = {}"
  proof (rule ccontr)
    assume "set (numeric_columns (analyze_data L df))
           \<inter> set (categorical_columns (analyze_data L df)) \<noteq> {}"
    then obtain n where n1: "n \<in> set (numeric_columns (analyze_data L df))"
      and n2: "n \<in> set (categorical_columns (analyze_data L df))" by blast
    from n1 obtain c1 where c1: "c1 \<in> set (columns df)" "is_number (dtype c1)" "name c1 = n"
      by (auto simp: numeric_columns_eq)
    from n2 obtain c2 where c2: "c2 \<in> set (columns df)" "dtype c2 = Object" "name c2 = n"
      by (auto simp: categorical_columns_eq)
    from inj c1 c2 have "c1 = c2" by (auto dest: inj_onD)
    with c1 c2 show False by simp
  qed
  show "set (numeric_columns (analyze_data L df))
           \<union> set (categorical_columns (analyze_data L df))
           = set (map name (filter (\<lambda>c. is_number (dtype c) \<or> dtype c = Object) (columns df)))"
    by (auto simp: numeric_columns_eq categorical_columns_eq)
qed

text \<open>Claim C1, amended, on \<^const>\<open>sales_df\<close>.\<close>

theorem columns_split_witness:
  "distinct (map name (columns sales_df))
   \<and> set (numeric_columns (analyze_data sample_lib sales_df))
       \<inter> set (categorical_columns (analyze_data sample_lib sales_df)) = {}
   \<and> set (numeric_columns (analyze_data sample_lib sales_df))
       \<union> set (categorical_columns (analyze_data sample_lib sales_df))
       = {StrL ''Product'', StrL ''Sales'', StrL ''Revenue'', StrL ''Notes''}"
proof -
  have d: "distinct (map name (columns sales_df))"
    by (simp add: sales_df_def)
  from columns_split [OF d, of sample_lib] show ?thesis
    using d by (auto simp: sales_df_def)
qed

subsection \<open>Missing values\<close>

text \<open>
  Claim C7. When the column labels are unique, the missing-value mapping has one entry per
  column, in column order, and the entry of a column is the number of its cells that are
  \<^verbatim>\<open>NaN\<close>, \<^verbatim>\<open>None\<close> or \<^verbatim>\<open>NaT\<close>.
\<close>

theorem missing_values_count:
  assumes "distinct (map name (columns df))" and "c \<in> set (columns df)"
  shows "map fst (missing_values (analyze_data L df)) = columns_tolist df
         \<and> map_of (missing_values (analyze_data L df)) (name c)
             = Some (length (filter isnull (cells c)))"
proof -
  have d: "distinct (map fst (isnull_sum df))"
    using assms(1) by (simp add: keys_isnull_sum)
  have mv: "missing_values (analyze_data L df) = isnull_sum df"
    by (simp add: analyze_data_def to_dict_distinct [OF d])
  have "(name c, length (filter isnull (cells c))) \<in> set (isnull_sum df)"
    using assms(2) by (auto simp: isnull_sum_def)
  then have "map_of (isnull_sum df) (name c) = Some (length (filter isnull (cells c)))"
    using d by simp
  then show ?thesis
    by (simp add: mv keys_isnull_sum columns_tolist_def)
qed

text \<open>
  Claim C7 on \<^const>\<open>sales_df\<close>: a column with every cell missing, one with none and
  one with a single gap.
\<close>

theorem missing_values_count_witness:
  "distinct (map name (columns sales_df))
   \<and> map_of (missing_values (analyze_data sample_lib sales_df)) (StrL ''Notes'') = Some 3
   \<and> map_of (missing_values (analyze_data sample_lib sales_df)) (StrL ''Sales'') = Some 0
   \<and> map_of (missing_values (analyze_data sample_lib sales_df)) (StrL ''Revenue'') = Some 1"
proof -
  have d: "distinct (map name (columns sales_df))"
    by (simp add: sales_df_def)
  have "columns sales_df ! 3 \<in> set (columns sales_df)"
       "columns sales_df ! 1 \<in> set (columns sales_df)"
       "columns sales_df ! 2 \<in> set (columns sales_df)"
    by (simp_all add: sales_df_def)
  from this [THEN missing_values_count [OF d, of _ sample_lib]] show ?thesis
    using d by (simp add: sales_df_def)
qed

subsection \<open>No numeric column\<close>

text \<open>
  Claim C8. For a table without numeric columns the profiler returns a profile whose
  statistics mapping is empty. The profiler is a total function, so it returns for every
  table; \<^verbatim>\<open>describe\<close> is not called on this path.
\<close>

theorem analyze_data_no_numeric:
  assumes "list_all (\<lambda>c. \<not> is_number (dtype c)) (columns df)"
  shows "numeric_columns (analyze_data L df) = []
         \<and> summary_stats (analyze_data L df) = []"
  using assms
  by (simp add: analyze_data_def columns_tolist_def select_dtypes_def list_all_iff filter_empty_conv)

text \<open>
  Claim C8 on \<^const>\<open>text_df\<close>, where \<^verbatim>\<open>describe\<close> itself would not be empty.
\<close>

theorem analyze_data_no_numeric_witness:
  "list_all (\<lambda>c. \<not> is_number (dtype c)) (columns text_df)
   \<and> describe sample_lib text_df \<noteq> []
   \<and> summary_stats (analyze_data sample_lib text_df) = []"
proof -
  have h: "list_all (\<lambda>c. \<not> is_number (dtype c)) (columns text_df)"
    by (simp add: text_df_def)
  from analyze_data_no_numeric [OF h, of sample_lib] show ?thesis
    using h by (simp add: sample_lib_def sample_describe_def text_df_def)
qed

section \<open>Properties of the report composer\<close>

subsection \<open>Column widths of the preview table\<close>

lemma collect_replicate: "collect (replicate n (Inr v)) = Inr (replicate n v)"
  by (induction n) auto

lemma col_widths_eq:
  "col_widths df
     = Inr (replicate (length (columns df))
              (fsub (fdiv (fst letter) (of_nat (length (columns df)))) 20))"
proof (cases "columns df = []")
  case True
  then show ?thesis by (simp add: col_widths_def)
next
  case False
  then have "col_widths df
      = collect (map (\<lambda>_. Inr (fsub (fdiv (fst letter) (of_nat (length (columns df)))) 20))
                   (columns df))"
    by (simp add: col_widths_def py_div_def)
  then show ?thesis by (simp add: collect_replicate map_replicate_const)
qed

text \<open>
  Doubles at work: a half and a quarter of the page width are exact, a seventh is not,
  and seven widths of a seventh less 20 points are not 472 points.
\<close>

lemma width_of_two: "fsub (fdiv 612 2) 20 = 286"
  by code_simp

lemma width_of_four: "fsub (fdiv 612 4) 20 = 133"
  by code_simp

lemma width_of_seven: "fsub (fdiv 612 7) 20 = 4744863893122487 / 70368744177664"
  by code_simp

text \<open>
  Claim C4, as stated, fails on \<^const>\<open>text_df\<close>: its two widths are 286 points each and
  sum to 572 points, while the printable width of the page is 468 points.
\<close>

theorem col_widths_sum_counterexample:
  "col_widths text_df = Inr [286, 286]
   \<and> sum_list [286, 286 :: rat] \<noteq> printable_width doc_template
   \<and> (286 :: rat) \<noteq> printable_width doc_template / 2"
proof -
  have "length (columns text_df) = 2" by (simp add: text_df_def)
  then have "col_widths text_df = Inr [286, 286]"
    by (simp add: col_widths_eq letter_def width_of_two numeral_2_eq_2)
  then show ?thesis
    by (simp add: printable_width_def doc_template_def letter_def)
qed

text \<open>
  Claim C4, amended. For a table with \<open>C \<ge> 1\<close> columns the widths are \<open>C\<close> copies of one
  float: the page width divided by \<open>C\<close>, less 20 points, each operation rounded to a
  double. The margins play no part.
\<close>

theorem col_widths_even:
  assumes "length (columns df) \<ge> 1"
  shows "col_widths df
           = Inr (replicate (length (columns df))
                    (fsub (fdiv (fst (pagesize doc_template)) (of_nat (length (columns df))))
                       20))"
  by (simp add: col_widths_eq doc_template_def)

text \<open>Claim C4, amended, on the four columns of \<^const>\<open>sales_df\<close>.\<close>

theorem col_widths_even_witness:
  "length (columns sales_df) \<ge> 1
   \<and> col_widths sales_df = Inr [133, 133, 133, 133]"
proof -
  have h: "length (columns sales_df) \<ge> 1" by (simp add: sales_df_def)
  have n: "length (columns sales_df) = 4" by (simp add: sales_df_def)
  have r: "replicate 4 x = [x, x, x, x]" for x :: rat
    by (simp add: numeral_eq_Suc)
  from col_widths_even [OF h] show ?thesis
    using h by (simp add: n doc_template_def letter_def r width_of_four)
qed

subsection \<open>The data preview\<close>

lemma values_dtype_head: "values_dtype (head n df) = values_dtype df"
  by (simp add: values_dtype_def head_def comp_def)

lemma take_upt0: "take n [0..<m] = [0..<min n m]"
  by (cases "n \<le> m") (simp_all add: min_def)

lemma values_tolist_head: "values_tolist (head n df) = take n (values_tolist df)"
  by (simp add: values_tolist_def values_dtype_head take_map take_upt0)
     (simp add: head_def comp_def)

text \<open>
  Claim C6. The preview is the row of column names followed by the first 10 rows of the
  table, every cell in its textual form and passed through the truncation: a text longer
  than 20 characters becomes its first 20 characters and \<^verbatim>\<open>...\<close>, a shorter one is
  unchanged. The names of the header row are cells of the preview and are truncated by
  the same rule.
\<close>

theorem preview_data_rows:
  "preview_data L df
     = map (map truncate_cell)
         (map label_str (columns_tolist df) # map (map (py_str L)) (take 10 (values_tolist df)))
   \<and> (length s > 20 \<longrightarrow> truncate_cell s = take 20 s @ ''...'')
   \<and> (length s \<le> 20 \<longrightarrow> truncate_cell s = s)"
  by (simp add: preview_data_def values_tolist_head truncate_cell_def)

lemma str_nat_digit: "n < 10 \<Longrightarrow> str_nat n = [digit n]"
  by (simp add: str_nat.simps [of n])

lemma str_nat_10: "str_nat 10 = ''10''"
  by (simp add: str_nat.simps [of 10] str_nat_digit digit_def)

text \<open>
  Claim C6 on \<^const>\<open>eleven_df\<close>, whose eleventh row is left out, and on a text of 26
  characters.
\<close>

theorem preview_data_rows_witness:
  "length ''abcdefghijklmnopqrstuvwxyz'' > 20
   \<and> length ''ok'' \<le> 20
   \<and> preview_data sample_lib eleven_df
       = [[''Sales''], [''1''], [''2''], [''3''], [''4''], [''5''], [''6''], [''7''], [''8''],
          [''9''], [''10'']]
   \<and> truncate_cell ''abcdefghijklmnopqrstuvwxyz'' = ''abcdefghijklmnopqrst...''
   \<and> truncate_cell ''ok'' = ''ok''"
proof -
  have v: "take 10 (values_tolist eleven_df)
             = map (\<lambda>i. [IntV i]) [1, 2, 3, 4, 5, 6, 7, 8, 9, 10]"
    by code_simp
  have n: "columns_tolist eleven_df = [StrL ''Sales'']"
    by (simp add: columns_tolist_def eleven_df_def)
  have t: "truncate_cell ''Sales'' = ''Sales''"
    by (simp add: truncate_cell_def)
  from preview_data_rows [of sample_lib eleven_df "''abcdefghijklmnopqrstuvwxyz''"]
       preview_data_rows [of sample_lib eleven_df "''ok''"]
  show ?thesis
    by (simp add: v n t str_int_def str_nat_digit str_nat_10 digit_def truncate_cell_def)
qed

subsection \<open>Paragraphs and tables that are accepted\<close>

lemma scan_no_tag: "CHR ''<'' \<notin> set s \<Longrightarrow> fold scan_char s (Text opened) = Text opened"
  by (induction s) auto

lemma markup_ok_plain: "plain s \<Longrightarrow> markup_ok s"
  by (simp add: markup_ok_def plain_def scan_no_tag)

lemma markup_ok_bold:
  assumes "plain s" and "plain t"
  shows "markup_ok (''<b>'' @ s @ ''</b>'' @ t)"
proof -
  have 1: "fold scan_char ''<b>'' (Text []) = Text [''b'']"
    by simp
  have 2: "fold scan_char s (Text [''b'']) = Text [''b'']"
    using assms(1) by (simp add: plain_def scan_no_tag)
  have 3: "fold scan_char ''</b>'' (Text [''b'']) = Text []"
    by simp
  have 4: "fold scan_char t (Text []) = Text []"
    using assms(2) by (simp add: plain_def scan_no_tag)
  show ?thesis
    unfolding markup_ok_def fold_append comp_def 1 2 3 4 ..
qed

lemma rl_Paragraph_plain: "plain s \<Longrightarrow> rl_Paragraph s st = Inr (Paragraph s st)"
  by (simp add: rl_Paragraph_def markup_ok_plain)

lemma rl_Paragraph_bold:
  "plain s \<Longrightarrow> plain t \<Longrightarrow>
   rl_Paragraph (''<b>'' @ s @ ''</b>'' @ t) st = Inr (Paragraph (''<b>'' @ s @ ''</b>'' @ t) st)"
  using markup_ok_bold [of s t] by (simp add: rl_Paragraph_def)

lemma rl_Paragraph_error: "rl_Paragraph s st = Inl e \<Longrightarrow> e = ValueError"
  by (simp add: rl_Paragraph_def split: if_splits)

lemma plain_append: "plain (s @ t) \<longleftrightarrow> plain s \<and> plain t"
  by (auto simp: plain_def)

lemma plain_join: "list_all plain ss \<Longrightarrow> plain (join '', '' ss)"
  by (induction "'', ''" ss rule: join.induct) (auto simp: plain_append, simp_all add: plain_def)

lemma rl_Table_error: "rl_Table d ws = Inl e \<Longrightarrow> e = ValueError"
  by (simp add: rl_Table_def split: if_splits)

lemma fold_max_ge: "a \<le> fold max xs (a::nat)"
proof (induction xs arbitrary: a)
  case Nil
  then show ?case by simp
next
  case (Cons x xs)
  have "a \<le> max x a" by simp
  also have "\<dots> \<le> fold max xs (max x a)" by (rule Cons.IH)
  finally show ?case by simp
qed

lemma fold_max_zero: "list_all (\<lambda>x. x = 0) xs \<Longrightarrow> fold max xs (0::nat) = 0"
  by (induction xs) auto

lemma rl_Table_ok:
  "row \<noteq> [] \<Longrightarrow> rl_Table (row # rows) ws = Inr (Table (row # rows) ws)"
proof -
  assume "row \<noteq> []"
  then have "0 < max (length row) 0" by simp
  also have "\<dots> \<le> fold max (map length rows) (max (length row) 0)" by (rule fold_max_ge)
  finally show ?thesis by (simp add: rl_Table_def)
qed

subsection \<open>The blocks of the report\<close>

lemma title_block_ok:
  "plain (now_str L) \<Longrightarrow>
   title_block L =
     Inr [Paragraph ''Automated Data Analysis Report'' CustomTitle,
          Paragraph (''Generated on: '' @ now_str L) Normal,
          Spacer 1 20]"
  by (simp add: title_block_def rl_Paragraph_plain plain_def)

lemma title_block_error: "title_block L = Inl e \<Longrightarrow> e = ValueError"
  by (auto simp: title_block_def split: sum.splits dest: rl_Paragraph_error)

lemma summary_block_ok:
  "summary_block a =
     Inr [Paragraph ''Executive Summary'' CustomHeading,
          Table [[''Total Records'', str_nat (total_rows a)],
                 [''Total Columns'', str_nat (total_columns a)],
                 [''Numeric Columns'', str_nat (length (numeric_columns a))],
                 [''Categorical Columns'', str_nat (length (categorical_columns a))]]
                [216, 216],
          Spacer 1 20]"
  by (simp add: summary_block_def rl_Table_ok inch_def rl_Paragraph_plain plain_def)

lemma names_text_error: "names_text ns = Inl e \<Longrightarrow> e = TypeError \<and> \<not> list_all is_str ns"
  by (simp add: names_text_def py_join_def split: if_splits)

lemma names_text_ok:
  "list_all is_str ns \<Longrightarrow>
   names_text ns = Inr (if ns = [] then ''None'' else join '', '' (map label_str ns))"
  by (simp add: names_text_def py_join_def)

lemma column_info_block_error:
  assumes "column_info_block a = Inl e"
  shows "e = ValueError \<or> e = TypeError"
    and "list_all is_str (numeric_columns a) \<Longrightarrow> list_all is_str (categorical_columns a) \<Longrightarrow>
         e = ValueError"
  using assms
  by (auto simp: column_info_block_def split: sum.splits
      dest: rl_Paragraph_error names_text_error)

lemma plain_names:
  assumes "list_all plain_label ns"
  shows "list_all is_str ns" and "list_all plain (map label_str ns)"
proof -
  have "plain_label l \<Longrightarrow> is_str l \<and> plain (label_str l)" for l
    by (cases l) simp_all
  with assms show "list_all is_str ns" and "list_all plain (map label_str ns)"
    by (auto simp: list_all_iff)
qed

lemma column_info_block_ok:
  assumes "list_all plain_label (numeric_columns a)"
    and "list_all plain_label (categorical_columns a)"
  shows "column_info_block a =
     Inr [Paragraph ''Column Information'' CustomHeading,
          Paragraph (''<b>Numeric Columns:</b> ''
                     @ (if numeric_columns a = [] then ''None''
                        else join '', '' (map label_str (numeric_columns a)))) Normal,
          Spacer 1 10,
          Paragraph (''<b>Categorical Columns:</b> ''
                     @ (if categorical_columns a = [] then ''None''
                        else join '', '' (map label_str (categorical_columns a)))) Normal,
          Spacer 1 20]"
proof -
  have p: "plain (if ns = [] then ''None'' else join '', '' (map label_str ns))"
    if "list_all plain_label ns" for ns
    using plain_join [OF plain_names(2) [OF that]] by (simp add: plain_def)
  have n: "plain ''Numeric Columns:''" "plain ''Categorical Columns:''"
    "plain ''Column Information''"
    by (simp_all add: plain_def)
  have b: "rl_Paragraph (''<b>'' @ s @ ''</b> '' @ t) st
           = Inr (Paragraph (''<b>'' @ s @ ''</b> '' @ t) st)" if "plain s" "plain t" for s t st
    using rl_Paragraph_bold [of s "CHR '' '' # t" st] that by (simp add: plain_def)
  show ?thesis
    using b [OF n(1) p [OF assms(1)], of Normal] b [OF n(2) p [OF assms(2)], of Normal]
    by (simp add: column_info_block_def names_text_ok plain_names(1) assms
        rl_Paragraph_plain [OF n(3)])
qed

lemma stats_tables_error: "stats_tables L xs = Inl e \<Longrightarrow> e = ValueError"
  by (induction L xs rule: stats_tables.induct)
     (auto split: sum.splits dest: rl_Table_error rl_Paragraph_error)

lemma stats_section_error: "stats_section L a = Inl e \<Longrightarrow> e = ValueError"
  by (auto simp: stats_section_def split: if_splits sum.splits
      dest: stats_tables_error rl_Paragraph_error)

lemma preview_heading_ok:
  "rl_Paragraph ''Data Preview (First 10 Rows)'' CustomHeading
     = Inr (Paragraph ''Data Preview (First 10 Rows)'' CustomHeading)"
  by (simp add: rl_Paragraph_plain plain_def)

lemma preview_data_no_columns:
  "columns df = [] \<Longrightarrow> list_all (\<lambda>n. n = 0) (map length (preview_data L df))"
  by (simp add: preview_data_def columns_tolist_def values_tolist_def head_def list_all_iff)

lemma preview_block_no_columns: "columns df = [] \<Longrightarrow> preview_block L df = Inl ValueError"
  using fold_max_zero [OF preview_data_no_columns, of df L]
  by (simp add: preview_block_def preview_heading_ok col_widths_eq rl_Table_def)

lemma preview_block_ok:
  assumes "columns df \<noteq> []"
  shows "preview_block L df =
           Inr [PageBreak, Paragraph ''Data Preview (First 10 Rows)'' CustomHeading,
                Table (preview_data L df)
                  (replicate (length (columns df))
                     (fsub (fdiv (fst letter) (of_nat (length (columns df)))) 20))]"
proof -
  obtain row rows where p: "preview_data L df = row # rows" and r: "row \<noteq> []"
    using assms by (simp add: preview_data_def columns_tolist_def)
  show ?thesis
    by (simp add: preview_block_def preview_heading_ok col_widths_eq p rl_Table_ok [OF r])
qed

lemma preview_block_error: "preview_block L df = Inl e \<Longrightarrow> e = ValueError"
  by (auto simp: preview_block_def col_widths_eq split: sum.splits
      dest: rl_Table_error rl_Paragraph_error)

lemma charts_section_error: "charts_section charts = Inl e \<Longrightarrow> e = ValueError"
  by (auto simp: charts_section_def split: if_splits sum.splits dest: rl_Paragraph_error)

lemma charts_section_none: "charts_section [] = Inr []"
  by (simp add: charts_section_def)

subsection \<open>Tables without columns\<close>

text \<open>
  The composer raises \<^verbatim>\<open>ValueError\<close> or \<^verbatim>\<open>TypeError\<close> and nothing else, and only
  \<^verbatim>\<open>ValueError\<close> when the labels of the profile are strings.
\<close>

lemma generate_pdf_report_error:
  assumes "generate_pdf_report L df a charts = Inl e"
  shows "e = ValueError \<or> e = TypeError"
    and "list_all is_str (numeric_columns a) \<Longrightarrow> list_all is_str (categorical_columns a) \<Longrightarrow>
         e = ValueError"
  using assms
  by (auto simp: generate_pdf_report_def summary_block_ok split: sum.splits
      dest: title_block_error column_info_block_error stats_section_error
        preview_block_error charts_section_error)

lemma generate_pdf_report_no_columns:
  assumes "columns df = []"
  shows "\<exists>e. generate_pdf_report L df a charts = Inl e"
  by (simp add: generate_pdf_report_def summary_block_ok preview_block_no_columns [OF assms]
      split: sum.splits)

text \<open>
  Claim C10, as stated, fails on \<^const>\<open>empty_df\<close>: the composer does not end in a
  division by zero.
\<close>

theorem no_columns_counterexample:
  "columns empty_df = []
   \<and> generate_pdf_report sample_lib empty_df (analyze_data sample_lib empty_df) []
       \<noteq> Inl ZeroDivisionError"
proof -
  have "columns empty_df = []" by (simp add: empty_df_def)
  moreover from generate_pdf_report_no_columns [OF this]
  obtain e where e: "generate_pdf_report sample_lib empty_df
      (analyze_data sample_lib empty_df) [] = Inl e" by blast
  moreover from generate_pdf_report_error(1) [OF e] have "e \<noteq> ZeroDivisionError" by auto
  ultimately show ?thesis by simp
qed

text \<open>
  Claim C10, amended. For a table without columns the width comprehension runs over no
  column, so the quotient is never evaluated and the width list is empty. The composer
  still produces no document: the preview data has no column and the table constructor
  refuses it with \<^verbatim>\<open>ValueError\<close>. That is the error of the composer whenever the labels
  of the profile are strings; a profile with a label that is no string can end the column
  information with \<^verbatim>\<open>TypeError\<close> before the preview is reached.
\<close>

theorem no_columns_no_division:
  assumes "columns df = []"
  shows "col_widths df = Inr []
         \<and> (generate_pdf_report L df a charts = Inl ValueError
              \<or> generate_pdf_report L df a charts = Inl TypeError)
         \<and> (list_all is_str (numeric_columns a) \<and> list_all is_str (categorical_columns a)
              \<longrightarrow> generate_pdf_report L df a charts = Inl ValueError)"
proof -
  from generate_pdf_report_no_columns [OF assms]
  obtain e where e: "generate_pdf_report L df a charts = Inl e" by blast
  from generate_pdf_report_error [OF e] show ?thesis
    using assms by (auto simp: e col_widths_eq)
qed

text \<open>Claim C10, amended, on \<^const>\<open>empty_df\<close> and its profile.\<close>

theorem no_columns_no_division_witness:
  "columns empty_df = []
   \<and> list_all is_str (numeric_columns (analyze_data sample_lib empty_df))
   \<and> list_all is_str (categorical_columns (analyze_data sample_lib empty_df))
   \<and> col_widths empty_df = Inr []
   \<and> generate_pdf_report sample_lib empty_df (analyze_data sample_lib empty_df) []
       = Inl ValueError"
proof -
  have h: "columns empty_df = []" by (simp add: empty_df_def)
  have s: "list_all is_str (numeric_columns (analyze_data sample_lib empty_df))"
    "list_all is_str (categorical_columns (analyze_data sample_lib empty_df))"
    by (simp_all add: numeric_columns_eq categorical_columns_eq empty_df_def)
  from no_columns_no_division [OF h, of sample_lib "analyze_data sample_lib empty_df" "[]"]
  show ?thesis using h s by simp
qed

subsection \<open>Tables without numeric columns\<close>

lemma generate_pdf_report_text_only:
  assumes "columns df \<noteq> []" and "numeric_columns (analyze_data L df) = []"
    and "list_all plain_label (categorical_columns (analyze_data L df))"
    and "plain (now_str L)"
  shows "generate_pdf_report L df (analyze_data L df) []
         = Inr (doc_template
             \<lparr> story :=
                 [Paragraph ''Automated Data Analysis Report'' CustomTitle,
                  Paragraph (''Generated on: '' @ now_str L) Normal,
                  Spacer 1 20,
                  Paragraph ''Executive Summary'' CustomHeading,
                  Table [[''Total Records'', str_nat (nrows df)],
                         [''Total Columns'', str_nat (length (columns df))],
                         [''Numeric Columns'', ''0''],
                         [''Categorical Columns'',
                          str_nat (length (categorical_columns (analyze_data L df)))]]
                        [216, 216],
                  Spacer 1 20,
                  Paragraph ''Column Information'' CustomHeading,
                  Paragraph ''<b>Numeric Columns:</b> None'' Normal,
                  Spacer 1 10,
                  Paragraph (''<b>Categorical Columns:</b> ''
                             @ (if categorical_columns (analyze_data L df) = [] then ''None''
                                else join '', ''
                                       (map label_str (categorical_columns (analyze_data L df)))))
                    Normal,
                  Spacer 1 20,
                  PageBreak,
                  Paragraph ''Data Preview (First 10 Rows)'' CustomHeading,
                  Table (preview_data L df)
                    (replicate (length (columns df))
                       (fsub (fdiv 612 (of_nat (length (columns df)))) 20))] \<rparr>)"
proof -
  have s: "summary_stats (analyze_data L df) = []"
    using assms(2) by (simp add: analyze_data_def columns_tolist_def)
  have z: "str_nat 0 = ''0''"
    by (simp add: str_nat.simps [of 0] digit_def)
  have t: "total_rows (analyze_data L df) = nrows df"
          "total_columns (analyze_data L df) = length (columns df)"
    by (simp_all add: analyze_data_def)
  have n: "list_all plain_label (numeric_columns (analyze_data L df))"
    by (simp add: assms(2))
  show ?thesis
    by (simp add: generate_pdf_report_def title_block_ok [OF assms(4)] summary_block_ok
        column_info_block_ok [OF n assms(3)] stats_section_def s
        preview_block_ok [OF assms(1)] charts_section_none assms(2) z t letter_def)
qed

text \<open>A label that is no string ends the column information with \<^verbatim>\<open>TypeError\<close>.\<close>

lemma generate_pdf_report_numbered:
  "generate_pdf_report sample_lib numbered_df (analyze_data sample_lib numbered_df) []
     = Inl TypeError"
  by code_simp

text \<open>
  Claim C5, as stated, fails on \<^const>\<open>markup_df\<close>: the table has a row, a column and no
  numeric column, and the composer ends in \<^verbatim>\<open>ValueError\<close>, because the name
  \<^verbatim>\<open>a<b\<close> is pasted into the markup of a paragraph.
\<close>

theorem generate_pdf_report_markup_counterexample:
  "0 < nrows markup_df \<and> columns markup_df \<noteq> []
   \<and> numeric_columns (analyze_data sample_lib markup_df) = []
   \<and> generate_pdf_report sample_lib markup_df (analyze_data sample_lib markup_df) []
       = Inl ValueError"
  by code_simp

text \<open>
  Claim C5, amended. For a table with a row and a column whose profile has no numeric
  column, and no chart, the composer returns a document when the labels of the text
  columns are strings without markup characters (and the formatted time has none, as the
  one of \<^verbatim>\<open>strftime\<close>). Its column information reads \<^verbatim>\<open>None\<close> for the numeric
  columns; the story has no statistics heading or table and, after the preview table, no
  chart block.
\<close>

theorem generate_pdf_report_no_numeric:
  assumes "0 < nrows df" and "columns df \<noteq> []"
    and "numeric_columns (analyze_data L df) = []"
    and "list_all plain_label (categorical_columns (analyze_data L df))"
    and "plain (now_str L)"
  shows "generate_pdf_report L df (analyze_data L df) []
         = Inr (doc_template
             \<lparr> story :=
                 [Paragraph ''Automated Data Analysis Report'' CustomTitle,
                  Paragraph (''Generated on: '' @ now_str L) Normal,
                  Spacer 1 20,
                  Paragraph ''Executive Summary'' CustomHeading,
                  Table [[''Total Records'', str_nat (nrows df)],
                         [''Total Columns'', str_nat (length (columns df))],
                         [''Numeric Columns'', ''0''],
                         [''Categorical Columns'',
                          str_nat (length (categorical_columns (analyze_data L df)))]]
                        [216, 216],
                  Spacer 1 20,
                  Paragraph ''Column Information'' CustomHeading,
                  Paragraph ''<b>Numeric Columns:</b> None'' Normal,
                  Spacer 1 10,
                  Paragraph (''<b>Categorical Columns:</b> ''
                             @ (if categorical_columns (analyze_data L df) = [] then ''None''
                                else join '', ''
                                       (map label_str (categorical_columns (analyze_data L df)))))
                    Normal,
                  Spacer 1 20,
                  PageBreak,
                  Paragraph ''Data Preview (First 10 Rows)'' CustomHeading,
                  Table (preview_data L df)
                    (replicate (length (columns df))
                       (fsub (fdiv 612 (of_nat (length (columns df)))) 20))] \<rparr>)"
  using assms(2-5) by (rule generate_pdf_report_text_only)

lemma str_nat_2: "str_nat 2 = ''2''"
  by (simp add: str_nat_digit digit_def)

text \<open>Claim C5, amended, on \<^const>\<open>text_df\<close>.\<close>

theorem generate_pdf_report_no_numeric_witness:
  "0 < nrows text_df \<and> columns text_df \<noteq> []
   \<and> numeric_columns (analyze_data sample_lib text_df) = []
   \<and> list_all plain_label (categorical_columns (analyze_data sample_lib text_df))
   \<and> plain (now_str sample_lib)
   \<and> generate_pdf_report sample_lib text_df (analyze_data sample_lib text_df) []
       = Inr (doc_template
           \<lparr> story :=
               [Paragraph ''Automated Data Analysis Report'' CustomTitle,
                Paragraph ''Generated on: January 01, 2024 at 09:00 AM'' Normal,
                Spacer 1 20,
                Paragraph ''Executive Summary'' CustomHeading,
                Table [[''Total Records'', ''2''], [''Total Columns'', ''2''],
                       [''Numeric Columns'', ''0''], [''Categorical Columns'', ''2'']]
                      [216, 216],
                Spacer 1 20,
                Paragraph ''Column Information'' CustomHeading,
                Paragraph ''<b>Numeric Columns:</b> None'' Normal,
                Spacer 1 10,
                Paragraph ''<b>Categorical Columns:</b> Product, Comment'' Normal,
                Spacer 1 20,
                PageBreak,
                Paragraph ''Data Preview (First 10 Rows)'' CustomHeading,
                Table [[''Product'', ''Comment''], [''Laptop'', ''ok''],
                       [''Phone'', ''abcdefghijklmnopqrst...'']]
                      [286, 286]] \<rparr>)"
proof -
  have c: "categorical_columns (analyze_data sample_lib text_df)
             = [StrL ''Product'', StrL ''Comment'']"
    by (simp add: categorical_columns_eq text_df_def)
  have t: "now_str sample_lib = ''January 01, 2024 at 09:00 AM''"
    by (simp add: sample_lib_def)
  have h: "0 < nrows text_df" "columns text_df \<noteq> []"
    "numeric_columns (analyze_data sample_lib text_df) = []"
    "list_all plain_label (categorical_columns (analyze_data sample_lib text_df))"
    "plain (now_str sample_lib)"
    by (simp_all add: text_df_def numeric_columns_eq)
       (simp_all add: c [unfolded text_df_def] t plain_def)
  have p: "preview_data sample_lib text_df
             = [[''Product'', ''Comment''], [''Laptop'', ''ok''],
                [''Phone'', ''abcdefghijklmnopqrst...'']]"
    by code_simp
  have n: "nrows text_df = 2" "length (columns text_df) = 2"
    by (simp_all add: text_df_def)
  have r: "replicate 2 x = [x, x]" for x :: rat
    by (simp add: numeral_2_eq_2)
  have s: "str_nat (Suc (Suc 0)) = ''2''"
    using str_nat_2 by (simp add: numeral_2_eq_2)
  from generate_pdf_report_no_numeric [OF h] show ?thesis
    using h by (simp add: c p n t r s str_nat_2 width_of_two)
qed

section \<open>Properties of the chart renderer\<close>

text \<open>
  Without a numeric column the renderer returns no chart. With numeric columns of the
  table, none of them called \<^verbatim>\<open>x\<close>, it returns one chart for one column and two for
  more, as long as the table has at most 10 rows; on a longer table the bar chart is
  refused, because \<^verbatim>\<open>x\<close> holds the first 10 row numbers while \<^verbatim>\<open>y\<close> names a column
  of the whole table. The line chart takes both from the first 20 rows.
\<close>

lemma create_visualizations_none: "create_visualizations df [] = Inr []"
  by (simp add: create_visualizations_def)

lemma find_column:
  "y \<in> set (columns_tolist df) \<Longrightarrow> \<exists>c. find (\<lambda>c. name c = y) (columns df) = Some c"
  by (cases "find (\<lambda>c. name c = y) (columns df)")
     (auto simp: find_None_iff columns_tolist_def)

lemma px_figure_ok:
  assumes "y \<in> set (columns_tolist df)" and "y \<noteq> StrL ''x''"
    and "length x = 0 \<or> nrows df = length x"
  shows "\<exists>fig. px_figure k df x y t colour = Inr fig"
  using find_column [OF assms(1)] assms(2,3) by (auto simp: px_figure_def)

lemma px_figure_mismatch:
  assumes "length x \<noteq> 0" and "nrows df \<noteq> length x"
  shows "px_figure k df x y t colour
           = Inl (if y = StrL ''x'' then NameError else ValueError)"
  using assms by (simp add: px_figure_def split: option.splits)

lemma create_visualizations_long:
  assumes "10 < nrows df" and "numeric_cols \<noteq> []"
  shows "create_visualizations df numeric_cols
           = Inl (if numeric_cols ! 0 = StrL ''x'' then NameError else ValueError)"
proof -
  have "length (index_upto 10 df) = 10" using assms(1) by (simp add: index_upto_def)
  then have "px_figure Bar df (index_upto 10 df) y t colour
               = Inl (if y = StrL ''x'' then NameError else ValueError)" for y t colour
    using assms(1) by (intro px_figure_mismatch) simp_all
  then show ?thesis using assms(2) by (simp add: create_visualizations_def)
qed

lemma create_visualizations_short:
  assumes "nrows df \<le> 10" and "set numeric_cols \<subseteq> set (columns_tolist df)"
    and "StrL ''x'' \<notin> set numeric_cols"
  shows "\<exists>charts. create_visualizations df numeric_cols = Inr charts
           \<and> length charts = min 2 (length numeric_cols)"
proof (cases numeric_cols)
  case Nil
  then show ?thesis by (simp add: create_visualizations_none)
next
  case (Cons c0 rest)
  have x: "nrows df = length (index_upto 10 df)"
    using assms(1) by (simp add: index_upto_def)
  have "c0 \<in> set (columns_tolist df)" "c0 \<noteq> StrL ''x''" using assms(2,3) Cons by auto
  from px_figure_ok [OF this, of "index_upto 10 df"] x
  obtain fig1 where f1: "px_figure Bar df (index_upto 10 df) c0
      (label_str c0 @ '' - Top 10 Records'') ''#667eea'' = Inr fig1" by blast
  show ?thesis
  proof (cases rest)
    case Nil
    with Cons f1 show ?thesis by (simp add: create_visualizations_def)
  next
    case (Cons c1 rest')
    have "c1 \<in> set (columns_tolist df)" and n: "c1 \<noteq> StrL ''x''"
      using assms(2,3) \<open>numeric_cols = c0 # rest\<close> Cons by auto
    then have "c1 \<in> set (columns_tolist (head 20 df))"
      by (simp add: columns_tolist_def head_def comp_def)
    moreover have "nrows (head 20 df) = length (index_upto 20 df)"
      by (simp add: head_def index_upto_def)
    ultimately obtain fig2 where f2: "px_figure Line (head 20 df) (index_upto 20 df) c1
      (label_str c1 @ '' - Trend Analysis'') ''#764ba2'' = Inr fig2"
      using px_figure_ok [of c1 "head 20 df" "index_upto 20 df"] n by blast
    with Cons \<open>numeric_cols = c0 # rest\<close> f1 show ?thesis
      by (simp add: create_visualizations_def)
  qed
qed

text \<open>
  Claim C3 on \<^const>\<open>eleven_df\<close>: the table has one numeric column and the renderer
  returns no chart but ends in \<^verbatim>\<open>ValueError\<close>.
\<close>

theorem create_visualizations_eleven_rows:
  "nrows eleven_df = 11
   \<and> numeric_columns (analyze_data sample_lib eleven_df) = [StrL ''Sales'']
   \<and> create_visualizations eleven_df [StrL ''Sales''] = Inl ValueError"
proof -
  have n: "nrows eleven_df = 11" by (simp add: eleven_df_def)
  then have "10 < nrows eleven_df" by simp
  then have "create_visualizations eleven_df [StrL ''Sales''] = Inl ValueError"
    using create_visualizations_long [of eleven_df "[StrL ''Sales'']"] by simp
  moreover have "numeric_columns (analyze_data sample_lib eleven_df) = [StrL ''Sales'']"
    by (simp add: eleven_df_def analyze_data_def columns_tolist_def select_dtypes_def)
  ultimately show ?thesis using n by simp
qed

section \<open>Properties of the pipeline\<close>

lemma report_pipeline_no_numeric:
  "numeric_columns (analyze_data L df) = [] \<Longrightarrow>
   report_pipeline L df = generate_pdf_report L df (analyze_data L df) []"
  by (simp add: report_pipeline_def create_visualizations_none)

lemma preview_data_no_rows:
  "nrows df = 0 \<Longrightarrow>
   preview_data L df = [map truncate_cell (map label_str (columns_tolist df))]"
  by (simp add: preview_data_def values_tolist_def head_def)

text \<open>
  Claim C2, as stated, fails on \<^const>\<open>header_only_df\<close>: the table has no row and the
  pipeline returns a document.
\<close>

theorem empty_table_counterexample:
  "nrows header_only_df = 0
   \<and> report_pipeline sample_lib header_only_df
       = Inr (doc_template
           \<lparr> story :=
               [Paragraph ''Automated Data Analysis Report'' CustomTitle,
                Paragraph ''Generated on: January 01, 2024 at 09:00 AM'' Normal,
                Spacer 1 20,
                Paragraph ''Executive Summary'' CustomHeading,
                Table [[''Total Records'', ''0''], [''Total Columns'', ''1''],
                       [''Numeric Columns'', ''0''], [''Categorical Columns'', ''1'']]
                      [216, 216],
                Spacer 1 20,
                Paragraph ''Column Information'' CustomHeading,
                Paragraph ''<b>Numeric Columns:</b> None'' Normal,
                Spacer 1 10,
                Paragraph ''<b>Categorical Columns:</b> Product'' Normal,
                Spacer 1 20,
                PageBreak,
                Paragraph ''Data Preview (First 10 Rows)'' CustomHeading,
                Table [[''Product'']] [592]] \<rparr>)"
  by code_simp

text \<open>
  Claim C2, amended. A table without rows that has columns, none of them numeric, goes
  through the pipeline when the labels of its text columns are strings without markup
  characters (and the formatted time has none): the document has the usual blocks and a
  preview table that is the header row alone. A table without columns ends the pipeline
  with the \<^verbatim>\<open>ValueError\<close> of the preview table. The error type has no kind for an empty
  table.
\<close>

theorem empty_table_pipeline:
  "(nrows df = 0 \<and> columns df \<noteq> [] \<and> numeric_columns (analyze_data L df) = []
      \<and> list_all plain_label (categorical_columns (analyze_data L df)) \<and> plain (now_str L)
    \<longrightarrow>
      report_pipeline L df
        = Inr (doc_template
            \<lparr> story :=
                [Paragraph ''Automated Data Analysis Report'' CustomTitle,
                 Paragraph (''Generated on: '' @ now_str L) Normal,
                 Spacer 1 20,
                 Paragraph ''Executive Summary'' CustomHeading,
                 Table [[''Total Records'', ''0''],
                        [''Total Columns'', str_nat (length (columns df))],
                        [''Numeric Columns'', ''0''],
                        [''Categorical Columns'',
                         str_nat (length (categorical_columns (analyze_data L df)))]]
                       [216, 216],
                 Spacer 1 20,
                 Paragraph ''Column Information'' CustomHeading,
                 Paragraph ''<b>Numeric Columns:</b> None'' Normal,
                 Spacer 1 10,
                 Paragraph (''<b>Categorical Columns:</b> ''
                            @ (if categorical_columns (analyze_data L df) = [] then ''None''
                               else join '', ''
                                      (map label_str (categorical_columns (analyze_data L df)))))
                   Normal,
                 Spacer 1 20,
                 PageBreak,
                 Paragraph ''Data Preview (First 10 Rows)'' CustomHeading,
                 Table [map truncate_cell (map label_str (columns_tolist df))]
                   (replicate (length (columns df))
                      (fsub (fdiv 612 (of_nat (length (columns df)))) 20))] \<rparr>))
   \<and> (columns df = [] \<longrightarrow> report_pipeline L df = Inl ValueError)"
proof (intro conjI impI)
  assume h: "nrows df = 0 \<and> columns df \<noteq> [] \<and> numeric_columns (analyze_data L df) = []
      \<and> list_all plain_label (categorical_columns (analyze_data L df)) \<and> plain (now_str L)"
  then have c: "columns df \<noteq> []" and n: "numeric_columns (analyze_data L df) = []"
    and r: "nrows df = 0"
    and p: "list_all plain_label (categorical_columns (analyze_data L df))"
    and t: "plain (now_str L)" by simp_all
  have z: "str_nat 0 = ''0''"
    by (simp add: str_nat_digit digit_def)
  show "report_pipeline L df
        = Inr (doc_template
            \<lparr> story :=
                [Paragraph ''Automated Data Analysis Report'' CustomTitle,
                 Paragraph (''Generated on: '' @ now_str L) Normal,
                 Spacer 1 20,
                 Paragraph ''Executive Summary'' CustomHeading,
                 Table [[''Total Records'', ''0''],
                        [''Total Columns'', str_nat (length (columns df))],
                        [''Numeric Columns'', ''0''],
                        [''Categorical Columns'',
                         str_nat (length (categorical_columns (analyze_data L df)))]]
                       [216, 216],
                 Spacer 1 20,
                 Paragraph ''Column Information'' CustomHeading,
                 Paragraph ''<b>Numeric Columns:</b> None'' Normal,
                 Spacer 1 10,
                 Paragraph (''<b>Categorical Columns:</b> ''
                            @ (if categorical_columns (analyze_data L df) = [] then ''None''
                               else join '', ''
                                      (map label_str (categorical_columns (analyze_data L df)))))
                   Normal,
                 Spacer 1 20,
                 PageBreak,
                 Paragraph ''Data Preview (First 10 Rows)'' CustomHeading,
                 Table [map truncate_cell (map label_str (columns_tolist df))]
                   (replicate (length (columns df))
                      (fsub (fdiv 612 (of_nat (length (columns df)))) 20))] \<rparr>)"
    by (simp add: report_pipeline_no_numeric [OF n] generate_pdf_report_text_only [OF c n p t]
        preview_data_no_rows [OF r] r z)
next
  assume c: "columns df = []"
  then have n: "numeric_columns (analyze_data L df) = []"
    and s: "categorical_columns (analyze_data L df) = []"
    by (simp_all add: numeric_columns_eq categorical_columns_eq)
  from generate_pdf_report_no_columns [OF c]
  obtain e where e: "generate_pdf_report L df (analyze_data L df) [] = Inl e" by blast
  from generate_pdf_report_error(2) [OF e] have "e = ValueError" by (simp add: n s)
  with e show "report_pipeline L df = Inl ValueError"
    by (simp add: report_pipeline_no_numeric [OF n])
qed

text \<open>Claim C2, amended, on \<^const>\<open>header_only_df\<close> and \<^const>\<open>empty_df\<close>.\<close>

theorem empty_table_pipeline_witness:
  "nrows header_only_df = 0 \<and> columns header_only_df \<noteq> []
   \<and> numeric_columns (analyze_data sample_lib header_only_df) = []
   \<and> list_all plain_label (categorical_columns (analyze_data sample_lib header_only_df))
   \<and> plain (now_str sample_lib)
   \<and> report_pipeline sample_lib header_only_df
       = Inr (doc_template
           \<lparr> story :=
               [Paragraph ''Automated Data Analysis Report'' CustomTitle,
                Paragraph ''Generated on: January 01, 2024 at 09:00 AM'' Normal,
                Spacer 1 20,
                Paragraph ''Executive Summary'' CustomHeading,
                Table [[''Total Records'', ''0''], [''Total Columns'', ''1''],
                       [''Numeric Columns'', ''0''], [''Categorical Columns'', ''1'']]
                      [216, 216],
                Spacer 1 20,
                Paragraph ''Column Information'' CustomHeading,
                Paragraph ''<b>Numeric Columns:</b> None'' Normal,
                Spacer 1 10,
                Paragraph ''<b>Categorical Columns:</b> Product'' Normal,
                Spacer 1 20,
                PageBreak,
                Paragraph ''Data Preview (First 10 Rows)'' CustomHeading,
                Table [[''Product'']] [592]] \<rparr>)
   \<and> columns empty_df = []
   \<and> report_pipeline sample_lib empty_df = Inl ValueError"
proof -
  have c: "categorical_columns (analyze_data sample_lib header_only_df) = [StrL ''Product'']"
    by (simp add: categorical_columns_eq header_only_df_def)
  have t: "now_str sample_lib = ''January 01, 2024 at 09:00 AM''"
    by (simp add: sample_lib_def)
  have h: "nrows header_only_df = 0 \<and> columns header_only_df \<noteq> []
           \<and> numeric_columns (analyze_data sample_lib header_only_df) = []
           \<and> list_all plain_label (categorical_columns (analyze_data sample_lib header_only_df))
           \<and> plain (now_str sample_lib)"
    by (simp add: header_only_df_def numeric_columns_eq)
       (simp add: c [unfolded header_only_df_def] t plain_def)
  have e: "columns empty_df = []" by (simp add: empty_df_def)
  have l: "length (columns header_only_df) = 1"
    "columns_tolist header_only_df = [StrL ''Product'']"
    by (simp_all add: header_only_df_def columns_tolist_def)
  have s: "str_nat 1 = ''1''" "str_nat (Suc 0) = ''1''"
    by (simp_all add: str_nat_digit digit_def)
  have u: "truncate_cell ''Product'' = ''Product''"
    by (simp add: truncate_cell_def)
  have w: "fsub (fdiv 612 1) 20 = 592"
    by code_simp
  from empty_table_pipeline [of header_only_df sample_lib] empty_table_pipeline [of empty_df sample_lib]
  show ?thesis using h e by (simp add: c l s t u w)
qed

section \<open>Properties of the stages on the store\<close>

lemma lookup_append_new: "lookup (h @ [v]) (length h) = Some v"
  by (simp add: lookup_def)

lemma lookup_old: "r < length h \<Longrightarrow> lookup (h @ [v]) r = lookup h r"
  by (simp add: lookup_def nth_append)

lemma length_append_image: "length (append_image r x h) = length h"
  by (simp add: append_image_def split: option.splits obj.splits)

lemma take_append_image: "n \<le> r \<Longrightarrow> take n (append_image r x h) = take n h"
  by (simp add: append_image_def split: option.splits obj.splits)

lemma lookup_append_image:
  "lookup h r = Some (ImageList xs) \<Longrightarrow>
   lookup (append_image r x h) r = Some (ImageList (xs @ [x]))"
  by (simp add: append_image_def) (simp add: lookup_def split: if_splits)

lemma length_append_flowable: "length (append_flowable r x h) = length h"
  by (simp add: append_flowable_def split: option.splits obj.splits)

lemma take_append_flowable: "n \<le> r \<Longrightarrow> take n (append_flowable r x h) = take n h"
  by (simp add: append_flowable_def split: option.splits obj.splits)

lemma lookup_append_flowable:
  "lookup h r = Some (FlowableList xs) \<Longrightarrow>
   lookup (append_flowable r x h) r = Some (FlowableList (xs @ [x]))"
  by (simp add: append_flowable_def) (simp add: lookup_def split: if_splits)

lemma length_append_flowables: "length (append_flowables r xs h) = length h"
  unfolding append_flowables_def
  by (induction xs arbitrary: h) (simp_all add: length_append_flowable)

lemma take_append_flowables: "n \<le> r \<Longrightarrow> take n (append_flowables r xs h) = take n h"
  unfolding append_flowables_def
  by (induction xs arbitrary: h) (simp_all add: take_append_flowable)

lemma lookup_append_flowables:
  "lookup h r = Some (FlowableList xs) \<Longrightarrow>
   lookup (append_flowables r ys h) r = Some (FlowableList (xs @ ys))"
  unfolding append_flowables_def
proof (induction ys arbitrary: h xs)
  case Nil
  then show ?case by simp
next
  case (Cons y ys)
  from Cons.IH [OF lookup_append_flowable [OF Cons.prems]] show ?case by simp
qed

lemma take_build: "n \<le> buffer \<Longrightarrow> n \<le> elements \<Longrightarrow> take n (build buffer elements h) = take n h"
  by (simp add: build_def split: option.splits obj.splits)

lemma lookup_build:
  assumes "lookup h elements = Some (FlowableList fs)" and "buffer < length h"
    and "buffer \<noteq> elements"
  shows "lookup (build buffer elements h) buffer = Some (BytesIO (Some (doc_template\<lparr>story := fs\<rparr>)))"
  using assms by (simp add: build_def) (simp add: lookup_def)

text \<open>
  Each function on the store returns what the function on values returns: the profile,
  the list of charts and the document are the contents of the new objects.
\<close>

lemma analyze_data_st_result:
  "lookup h df_ref = Some (Frame df) \<Longrightarrow>
   analyze_data_st L df_ref h = Some (length h, h @ [Dict (analyze_data L df)])"
  by (simp add: analyze_data_st_def new_def)

lemma create_visualizations_st_frame:
  assumes "lookup h df_ref = Some (Frame df)"
  shows "\<exists>res h'. create_visualizations_st df_ref numeric_cols h = Some (res, h')
           \<and> take (length h) h' = h"
  using assms
  by (simp add: create_visualizations_st_def new_def Let_def take_append_image
      split: sum.splits)

lemma create_visualizations_st_result:
  assumes "lookup h df_ref = Some (Frame df)"
    and "create_visualizations_st df_ref numeric_cols h = Some (res, h')"
  shows "case create_visualizations df numeric_cols of
           Inl e \<Rightarrow> res = Inl e
         | Inr charts \<Rightarrow> res = Inr (length h) \<and> lookup h' (length h) = Some (ImageList charts)"
proof -
  have n: "lookup (h @ [ImageList []]) (length h) = Some (ImageList [])"
    by (rule lookup_append_new)
  show ?thesis
    using assms
    by (auto simp: create_visualizations_st_def create_visualizations_def new_def Let_def
        lookup_append_image [OF n] lookup_append_image [OF lookup_append_image [OF n]] n
        split: sum.splits if_splits)
qed

lemma generate_pdf_report_st_frame:
  assumes "lookup h df_ref = Some (Frame df)"
    and "lookup h analysis_ref = Some (Dict a)"
    and "lookup h charts_ref = Some (ImageList charts)"
  shows "\<exists>res h'. generate_pdf_report_st L df_ref analysis_ref charts_ref h = Some (res, h')
           \<and> take (length h) h' = h"
  using assms
  by (simp add: generate_pdf_report_st_def new_def Let_def take_append_flowables take_build
      split: sum.splits)

lemma generate_pdf_report_st_result:
  assumes "lookup h df_ref = Some (Frame df)"
    and "lookup h analysis_ref = Some (Dict a)"
    and "lookup h charts_ref = Some (ImageList charts)"
    and "generate_pdf_report_st L df_ref analysis_ref charts_ref h = Some (res, h')"
  shows "case generate_pdf_report L df a charts of
           Inl e \<Rightarrow> res = Inl e
         | Inr doc \<Rightarrow> res = Inr (length h) \<and> lookup h' (length h) = Some (BytesIO (Some doc))"
proof -
  let ?h2 = "h @ [BytesIO None, FlowableList []]"
  have e: "lookup ?h2 (Suc (length h)) = Some (FlowableList [])"
    using lookup_append_new [of "h @ [BytesIO None]"] by simp
  have l: "lookup (append_flowables (Suc (length h)) xs ?h2) (Suc (length h)) = Some (FlowableList xs)" for xs
    using lookup_append_flowables [OF e, of xs] by simp
  have c: "append_flowables r ys (append_flowables r xs g) = append_flowables r (xs @ ys) g"
    for r xs ys g
    by (simp add: append_flowables_def)
  have b: "lookup (build (length h) (Suc (length h))
             (append_flowables (Suc (length h)) xs ?h2)) (length h)
           = Some (BytesIO (Some (doc_template\<lparr>story := xs\<rparr>)))" for xs
    by (rule lookup_build [OF l]) (simp_all add: length_append_flowables)
  show ?thesis
    using assms
    by (auto simp: generate_pdf_report_st_def generate_pdf_report_def new_def Let_def c b
        split: sum.splits)
qed

lemma lookup_unchanged:
  "take (length h) h' = h \<Longrightarrow> lookup h r = Some v \<Longrightarrow> lookup h' r = Some v"
proof -
  assume t: "take (length h) h' = h" and l: "lookup h r = Some v"
  from l have r: "r < length h" and v: "h ! r = v"
    by (simp_all add: lookup_def split: if_splits)
  from t have "length h \<le> length h'"
    by (metis length_take min.cobounded1)
  moreover from t r have "h' ! r = h ! r"
    by (metis nth_take)
  ultimately show ?thesis using r v by (simp add: lookup_def)
qed

text \<open>
  Claim C9. Called with references to a table, a profile and a list of charts, each of
  the three functions returns, and the store it leaves agrees with the store it was given
  on every object that existed before the call: the table and, for the composer, the
  profile and the chart list are what they were. The functions write to objects they have
  created themselves only.
\<close>

theorem stages_leave_arguments:
  assumes "lookup h df_ref = Some (Frame df)"
    and "lookup h analysis_ref = Some (Dict a)"
    and "lookup h charts_ref = Some (ImageList charts)"
  shows "(\<exists>r h'. analyze_data_st L df_ref h = Some (r, h') \<and> take (length h) h' = h
               \<and> lookup h' df_ref = Some (Frame df))
         \<and> (\<exists>res h'. create_visualizations_st df_ref numeric_cols h = Some (res, h')
               \<and> take (length h) h' = h
               \<and> lookup h' df_ref = Some (Frame df))
         \<and> (\<exists>res h'. generate_pdf_report_st L df_ref analysis_ref charts_ref h = Some (res, h')
               \<and> take (length h) h' = h
               \<and> lookup h' df_ref = Some (Frame df)
               \<and> lookup h' analysis_ref = Some (Dict a)
               \<and> lookup h' charts_ref = Some (ImageList charts))"
proof (intro conjI)
  have "take (length h) (h @ [Dict (analyze_data L df)]) = h" by simp
  with analyze_data_st_result [OF assms(1), of L]
  show "\<exists>r h'. analyze_data_st L df_ref h = Some (r, h') \<and> take (length h) h' = h
               \<and> lookup h' df_ref = Some (Frame df)"
    using lookup_unchanged [OF _ assms(1)] by blast
  from create_visualizations_st_frame [OF assms(1)]
  show "\<exists>res h'. create_visualizations_st df_ref numeric_cols h = Some (res, h')
               \<and> take (length h) h' = h
               \<and> lookup h' df_ref = Some (Frame df)"
    using lookup_unchanged [OF _ assms(1)] by blast
  from generate_pdf_report_st_frame [OF assms]
  show "\<exists>res h'. generate_pdf_report_st L df_ref analysis_ref charts_ref h = Some (res, h')
               \<and> take (length h) h' = h
               \<and> lookup h' df_ref = Some (Frame df)
               \<and> lookup h' analysis_ref = Some (Dict a)
               \<and> lookup h' charts_ref = Some (ImageList charts)"
    using lookup_unchanged [OF _ assms(1)] lookup_unchanged [OF _ assms(2)]
      lookup_unchanged [OF _ assms(3)] by blast
qed

text \<open>Claim C9 on \<^const>\<open>session_store\<close>.\<close>

theorem stages_leave_arguments_witness:
  "lookup session_store 0 = Some (Frame sales_df)
   \<and> lookup session_store 1 = Some (Dict (analyze_data sample_lib sales_df))
   \<and> lookup session_store 2 = Some (ImageList [])
   \<and> take 3 (snd (the (analyze_data_st sample_lib 0 session_store))) = session_store
   \<and> take 3 (snd (the (create_visualizations_st 0 [StrL ''Sales'', StrL ''Revenue''] session_store)))
       = session_store
   \<and> take 3 (snd (the (generate_pdf_report_st sample_lib 0 1 2 session_store)))
       = session_store"
proof -
  have l: "lookup session_store 0 = Some (Frame sales_df)"
    "lookup session_store 1 = Some (Dict (analyze_data sample_lib sales_df))"
    "lookup session_store 2 = Some (ImageList [])"
    by (simp_all add: session_store_def lookup_def)
  have n: "length session_store = 3"
    by (simp add: session_store_def)
  from stages_leave_arguments [OF l, of sample_lib "[StrL ''Sales'', StrL ''Revenue'']"]
  show ?thesis using l by (auto simp: n)
qed

end
